theory Spec2Isabelle
  imports Complex_Main "HOL-Library.Sublist"
begin

section \<open>The web API service of app/web.py\<close>

text \<open>
  The module defines three pydantic models, one module-level client handle and six route
  handlers. The handlers are modelled as functions from the process state and the request
  to the handler's result and the new process state. A result is \<open>Inr\<close> of the returned
  value or \<open>Inl\<close> of the exception that left the handler. The call of the market-data
  client is the only effect of a handler; it is recorded in the state, call by call.

  Around the handlers, the framework validates the body of a request before the handler
  runs, and writes the handler's result as the HTTP response after it; both steps are part
  of the model.
\<close>

subsection \<open>Python values\<close>

text \<open>
  A Python float is a finite number, one of the two infinities, or not-a-number. The
  comparison \<open>x > n\<close> with an integer \<open>n\<close> is false for not-a-number.
\<close>

datatype pyfloat = Fin real | PosInf | NegInf | NaN

fun py_gt :: "pyfloat \<Rightarrow> int \<Rightarrow> bool" where
  "py_gt (Fin r) n = (of_int n < r)"
| "py_gt PosInf n = True"
| "py_gt NegInf n = False"
| "py_gt NaN n = False"

text \<open>The cells of a candle row, as the provider's JSON gives them.\<close>

datatype pyval = PyNone | PyStr string | PyInt int | PyFloat pyfloat

type_synonym candle = "pyval list"

subsection \<open>Decimal text of an integer\<close>

function str_nat :: "nat \<Rightarrow> string" where
  "str_nat n = (if n < 10 then [char_of (48 + n)] else str_nat (n div 10) @ [char_of (48 + n mod 10)])"
  by pat_completeness auto
termination
  by (relation "measure (\<lambda>n. n)") auto

declare str_nat.simps [simp del]

definition str_int :: "int \<Rightarrow> string" where
  "str_int i = (if i < 0 then CHR ''-'' # str_nat (nat (- i)) else str_nat (nat i))"

subsection \<open>Exceptions\<close>

text \<open>
  An exception is either the framework's \<open>HTTPException\<close>, with its status code and
  detail, or any other exception, given by the names of its class and of all the classes
  it derives from, and by its text \<open>str(e)\<close>.

  \<open>HTTPException\<close> derives from \<open>Exception\<close>. Its text is the one the framework
  (Starlette) defines: the status code, a colon and a blank, the detail.
\<close>

datatype exn = HTTPException int string | PyExn "string list" string

fun isinstance :: "exn \<Rightarrow> string \<Rightarrow> bool" where
  "isinstance (HTTPException status_code detail) c =
     (c \<in> set [''HTTPException'', ''Exception'', ''BaseException''])"
| "isinstance (PyExn classes text) c = (c \<in> set classes)"

fun str :: "exn \<Rightarrow> string" where
  "str (HTTPException status_code detail) = str_int status_code @ '': '' @ detail"
| "str (PyExn classes text) = text"

text \<open>
  \<open>try: body except C as e: handler\<close>: an exception of the body that is an instance of
  \<open>C\<close> is handed to the handler, any other exception leaves the statement.
\<close>

definition try_except :: "exn + 'a \<Rightarrow> string \<Rightarrow> (exn \<Rightarrow> exn + 'a) \<Rightarrow> exn + 'a" where
  "try_except body c handler =
     (case body of
        Inr v \<Rightarrow> Inr v
      | Inl e \<Rightarrow> if isinstance e c then handler e else Inl e)"

subsection \<open>Request and response models\<close>

record HistoricalCandleResponse =
  isin :: string
  data :: "candle list"
  timestamp :: string

record PredictionResponse =
  isin :: string
  predicted_high :: pyfloat
  confidence :: string

record StockPredictionRequest =
  isin :: string
  start_date :: string
  end_date :: string
  interval :: string
  count :: int

text \<open>
  The constructor of \<open>StockPredictionRequest\<close>: \<open>interval\<close> and \<open>count\<close> may be left out
  and then take the defaults of the class, \<open>"day"\<close> and \<open>1\<close>.
\<close>

definition new_StockPredictionRequest ::
  "string \<Rightarrow> string \<Rightarrow> string \<Rightarrow> string option \<Rightarrow> int option \<Rightarrow> StockPredictionRequest" where
  "new_StockPredictionRequest i s e interval_arg count_arg =
     \<lparr>isin = i, start_date = s, end_date = e,
      interval = (case interval_arg of None \<Rightarrow> ''day'' | Some v \<Rightarrow> v),
      count = (case count_arg of None \<Rightarrow> 1 | Some n \<Rightarrow> n)\<rparr>"

subsection \<open>Request bodies and their validation\<close>

text \<open>
  The body of a \<open>POST\<close> request is a JSON value. Before a handler runs, the framework
  validates the body against \<open>StockPredictionRequest\<close>: the body must be an object, the
  three fields without default must be present, and every field that is present must hold a
  value the field's type accepts. A member that occurs twice counts as written last;
  members with other names are ignored. A string is accepted by a \<open>str\<close> field and an
  integer by an \<open>int\<close> field as they are. What pydantic makes of a value of another kind
  (a numeral in a string, a float without fraction) depends on its version; it is the
  parameter \<open>pyd\<close>.
\<close>

datatype json =
    JNull
  | JBool bool
  | JInt int
  | JFloat pyfloat
  | JStr string
  | JArr "json list"
  | JObj "(string \<times> json) list"

record pydantic =
  lax_str :: "json \<Rightarrow> string option"
  lax_int :: "json \<Rightarrow> int option"

fun validate_str :: "pydantic \<Rightarrow> json \<Rightarrow> string option" where
  "validate_str pyd (JStr s) = Some s"
| "validate_str pyd j = lax_str pyd j"

fun validate_int :: "pydantic \<Rightarrow> json \<Rightarrow> int option" where
  "validate_int pyd (JInt n) = Some n"
| "validate_int pyd j = lax_int pyd j"

datatype 'a field = Absent | Invalid | Valid 'a

definition field_of :: "(json \<Rightarrow> 'a option) \<Rightarrow> (string \<rightharpoonup> json) \<Rightarrow> string \<Rightarrow> 'a field" where
  "field_of validate members name =
     (case members name of
        None \<Rightarrow> Absent
      | Some j \<Rightarrow> (case validate j of None \<Rightarrow> Invalid | Some v \<Rightarrow> Valid v))"

fun given :: "'a field \<Rightarrow> 'a option" where
  "given (Valid v) = Some v"
| "given f = None"

text \<open>The validated request, or \<open>None\<close> when the body is not valid.\<close>

definition validate_body :: "pydantic \<Rightarrow> json \<Rightarrow> StockPredictionRequest option" where
  "validate_body pyd body =
     (case body of
        JObj members \<Rightarrow>
          (let m = map_of (rev members) in
           case field_of (validate_str pyd) m ''isin'' of
             Valid i \<Rightarrow>
          (case field_of (validate_str pyd) m ''start_date'' of
             Valid s \<Rightarrow>
          (case field_of (validate_str pyd) m ''end_date'' of
             Valid e \<Rightarrow>
               if field_of (validate_str pyd) m ''interval'' = Invalid
                  \<or> field_of (validate_int pyd) m ''count'' = Invalid
               then None
               else Some (new_StockPredictionRequest i s e
                      (given (field_of (validate_str pyd) m ''interval''))
                      (given (field_of (validate_int pyd) m ''count'')))
           | _ \<Rightarrow> None)
           | _ \<Rightarrow> None)
           | _ \<Rightarrow> None)
      | _ \<Rightarrow> None)"

subsection \<open>The market-data client and the process state\<close>

text \<open>
  Modelled from the spec: the class \<open>UpstoxClient\<close> of app/app.py is not among the
  sources. Its constructor either returns a client or raises; a client has one operation,
  fetching the historical candles of an instrument, which returns an ordered sequence of
  candle rows, possibly empty, or raises. A client object is true in a boolean context.
\<close>

record UpstoxClient =
  client_get_historical_candles ::
    "string \<Rightarrow> string \<Rightarrow> string \<Rightarrow> string \<Rightarrow> int \<Rightarrow> exn + candle list"

type_synonym fetch_call = "string \<times> string \<times> string \<times> string \<times> int"

text \<open>
  The process state: the module-level \<open>client\<close>, and the calls of the client's fetch
  operation made so far, oldest first.
\<close>

record app_state =
  client :: "UpstoxClient option"
  fetch_calls :: "fetch_call list"

text \<open>
  The module's initialisation of \<open>client\<close>: only a \<open>ValueError\<close> of the constructor
  is caught; any other exception leaves the module, and the process does not start.
\<close>

definition init_client :: "exn + UpstoxClient \<Rightarrow> exn + UpstoxClient option" where
  "init_client constructed =
     try_except (case constructed of Inl e \<Rightarrow> Inl e | Inr c \<Rightarrow> Inr (Some c))
       ''ValueError'' (\<lambda>e. Inr None)"

definition startup :: "exn + UpstoxClient \<Rightarrow> exn + app_state" where
  "startup constructed =
     (case init_client constructed of
        Inl e \<Rightarrow> Inl e
      | Inr c \<Rightarrow> Inr \<lparr>client = c, fetch_calls = []\<rparr>)"

text \<open>The call \<open>client.get_historical_candles(isin=..., ..., count=...)\<close> of both data routes.\<close>

definition call_get_historical_candles ::
  "UpstoxClient \<Rightarrow> app_state \<Rightarrow> StockPredictionRequest \<Rightarrow> (exn + candle list) \<times> app_state" where
  "call_get_historical_candles c st request =
     (client_get_historical_candles c (isin request) (start_date request) (end_date request)
        (interval request) (count request),
      st\<lparr>fetch_calls := fetch_calls st @
        [(isin request, start_date request, end_date request, interval request, count request)]\<rparr>)"

subsection \<open>The prediction engine\<close>

text \<open>
  Modelled from the spec: the class \<open>Prediction\<close> of core/prediction.py is not among the
  sources, and \<open>pandas.DataFrame\<close> is a library. The engine is constructed from a table of
  candles and driven through feature engineering, training and prediction; each step may
  raise, the first three leave an updated engine, the last returns one float. The table type
  \<open>'df\<close>, the engine type \<open>'p\<close> and the five operations are parameters.
\<close>

record ('df, 'p) engine =
  DataFrame :: "candle list \<Rightarrow> string list \<Rightarrow> exn + 'df"
  Prediction :: "'df \<Rightarrow> exn + 'p"
  feature_engineering :: "'p \<Rightarrow> exn + 'p"
  train_model :: "'p \<Rightarrow> exn + 'p"
  predict_next_day :: "'p \<Rightarrow> exn + pyfloat"

subsection \<open>Route handlers\<close>

text \<open>\<open>GET /health\<close>\<close>

record health_report =
  status :: string
  api_configured :: bool

definition health :: "app_state \<Rightarrow> (exn + health_report) \<times> app_state" where
  "health st = (Inr \<lparr>status = ''healthy'', api_configured = (client st \<noteq> None)\<rparr>, st)"

text \<open>\<open>POST /api/historical-candles\<close>\<close>

definition get_historical_candles ::
  "app_state \<Rightarrow> StockPredictionRequest \<Rightarrow> (exn + HistoricalCandleResponse) \<times> app_state" where
  "get_historical_candles st request =
     (case client st of
        None \<Rightarrow>
          (Inl (HTTPException 503
             ''Upstox API client not configured. Set UPSTOX_API_TOKEN in .env''), st)
      | Some c \<Rightarrow>
          (case call_get_historical_candles c st request of
             (fetched, st') \<Rightarrow>
               (try_except
                  (case fetched of
                     Inl e \<Rightarrow> Inl e
                   | Inr candles \<Rightarrow>
                       Inr \<lparr>HistoricalCandleResponse.isin = isin request,
                            data = candles,
                            timestamp = end_date request\<rparr>)
                  ''Exception''
                  (\<lambda>e. Inl (HTTPException 400 (''Error fetching candles: '' @ str e))),
                st')))"

text \<open>\<open>POST /api/predict\<close>: the body of the \<open>try\<close> statement, from the fetched candles on.\<close>

definition headers :: "string list" where
  "headers = [''Timestamp'', ''Open'', ''High'', ''Low'', ''Close'', ''Volume'', ''Open Interest'']"

definition predict_body ::
  "('df, 'p) engine \<Rightarrow> StockPredictionRequest \<Rightarrow> exn + candle list \<Rightarrow> exn + PredictionResponse" where
  "predict_body eng request fetched =
     (case fetched of
        Inl e \<Rightarrow> Inl e
      | Inr candles \<Rightarrow>
          if candles = [] then
            Inl (HTTPException 404 ''No data found for the given ISIN and date range'')
          else
            (case DataFrame eng candles headers of
               Inl e \<Rightarrow> Inl e
             | Inr df \<Rightarrow>
            (case Prediction eng df of
               Inl e \<Rightarrow> Inl e
             | Inr predictor \<Rightarrow>
            (case feature_engineering eng predictor of
               Inl e \<Rightarrow> Inl e
             | Inr predictor1 \<Rightarrow>
            (case train_model eng predictor1 of
               Inl e \<Rightarrow> Inl e
             | Inr predictor2 \<Rightarrow>
            (case predict_next_day eng predictor2 of
               Inl e \<Rightarrow> Inl e
             | Inr predicted \<Rightarrow>
                 Inr \<lparr>PredictionResponse.isin = isin request,
                      predicted_high = predicted,
                      confidence = (if py_gt predicted 0 then ''high'' else ''moderate'')\<rparr>))))))"

definition predict_stock ::
  "('df, 'p) engine \<Rightarrow> app_state \<Rightarrow> StockPredictionRequest \<Rightarrow>
     (exn + PredictionResponse) \<times> app_state" where
  "predict_stock eng st request =
     (case client st of
        None \<Rightarrow> (Inl (HTTPException 503 ''Upstox API client not configured''), st)
      | Some c \<Rightarrow>
          (case call_get_historical_candles c st request of
             (fetched, st') \<Rightarrow>
               (try_except (predict_body eng request fetched) ''Exception''
                  (\<lambda>e. Inl (HTTPException 400 (''Prediction error: '' @ str e))),
                st')))"

text \<open>
  \<open>GET /api/stocks\<close>: a dictionary is an association list, in the order the literal is
  written.
\<close>

definition get_stock_list :: "(string \<times> (string \<times> string) list list) list" where
  "get_stock_list =
     [(''stocks'',
       [
        [(''name'', ''Reliance Industries''), (''isin'', ''INE002A01018'')],
        [(''name'', ''Bharti Airtel''), (''isin'', ''INE397D01024'')],
        [(''name'', ''TCS''), (''isin'', ''INE467B01029'')],
        [(''name'', ''ICICI Bank''), (''isin'', ''INE090A01021'')],
        [(''name'', ''State Bank of India''), (''isin'', ''INE062A01020'')],
        [(''name'', ''Infosys''), (''isin'', ''INE009A01021'')],
        [(''name'', ''Hindustan Unilever''), (''isin'', ''INE030A01027'')],
        [(''name'', ''ITC''), (''isin'', ''INE154A01025'')],
        [(''name'', ''Mahindra & Mahindra''), (''isin'', ''INE101A01026'')],
        [(''name'', ''Kotak Mahindra Bank''), (''isin'', ''INE237A01028'')],
        [(''name'', ''HCL Technologies''), (''isin'', ''INE860A01027'')],
        [(''name'', ''Sun Pharma''), (''isin'', ''INE044A01036'')],
        [(''name'', ''Axis Bank''), (''isin'', ''INE238A01034'')],
        [(''name'', ''UltraTech Cement''), (''isin'', ''INE481G01011'')],
        [(''name'', ''Titan Company''), (''isin'', ''INE280A01028'')],
        [(''name'', ''NTPC''), (''isin'', ''INE733E01010'')],
        [(''name'', ''Asian Paints''), (''isin'', ''INE021A01026'')],
        [(''name'', ''Tata Steel''), (''isin'', ''INE081A01020'')],
        [(''name'', ''Tata Consumer Products''), (''isin'', ''INE192A01025'')],
        [(''name'', ''Wipro''), (''isin'', ''INE075A01022'')],
        [(''name'', ''Adani Enterprises''), (''isin'', ''INE423A01024'')],
        [(''name'', ''Adani Ports''), (''isin'', ''INE742F01042'')]
       ])]"

subsection \<open>Requests and responses of the process\<close>

text \<open>
  The framework answers a returned value with status 200 and the value, written as JSON,
  as body; a raised \<open>HTTPException\<close> with its status code and its detail; any other
  \<open>Exception\<close> with status 500. An exception that is no \<open>Exception\<close> is not answered.
  A body that fails validation is answered with status 422 and the list of errors.

  JSON has no infinity and no not-a-number. In the rows of a \<open>HistoricalCandleResponse\<close>
  (the route declares it as \<open>response_model\<close>) such a cell is written as \<open>null\<close>; a
  \<open>PredictionResponse\<close> whose \<open>predicted_high\<close> is not finite cannot be written, and
  the request is answered with status 500.
\<close>

datatype payload =
    Candles HistoricalCandleResponse
  | Predicted PredictionResponse
  | Health health_report
  | Stocks "(string \<times> (string \<times> string) list list) list"
  | Page string
  | Detail string
  | Validation_errors

datatype http_response = Response int payload | Unanswered exn

fun json_cell :: "pyval \<Rightarrow> pyval" where
  "json_cell (PyFloat (Fin r)) = PyFloat (Fin r)"
| "json_cell (PyFloat x) = PyNone"
| "json_cell v = v"

text \<open>A cell that JSON can hold as it is.\<close>

fun finite_cell :: "pyval \<Rightarrow> bool" where
  "finite_cell (PyFloat (Fin r)) = True"
| "finite_cell (PyFloat x) = False"
| "finite_cell v = True"

fun render :: "payload \<Rightarrow> http_response" where
  "render (Candles r) = Response 200 (Candles (r\<lparr>data := map (map json_cell) (data r)\<rparr>))"
| "render (Predicted r) =
     (case predicted_high r of
        Fin x \<Rightarrow> Response 200 (Predicted r)
      | _ \<Rightarrow> Response 500 (Detail ''Internal Server Error''))"
| "render p = Response 200 p"

definition respond :: "('a \<Rightarrow> payload) \<Rightarrow> exn + 'a \<Rightarrow> http_response" where
  "respond body result =
     (case result of
        Inr v \<Rightarrow> render (body v)
      | Inl (HTTPException status_code detail) \<Rightarrow> Response status_code (Detail detail)
      | Inl (PyExn classes text) \<Rightarrow>
          if ''Exception'' \<in> set classes then Response 500 (Detail ''Internal Server Error'')
          else Unanswered (PyExn classes text))"

text \<open>A request whose body, if it has one, has passed validation.\<close>

datatype http_request =
    GET_root
  | GET_ui
  | GET_health
  | POST_historical_candles StockPredictionRequest
  | POST_predict StockPredictionRequest
  | GET_stocks

fun serve :: "('df, 'p) engine \<Rightarrow> app_state \<Rightarrow> http_request \<Rightarrow> http_response \<times> app_state" where
  "serve eng st GET_root = (Response 200 (Page ''index.html''), st)"
| "serve eng st GET_ui = (Response 200 (Page ''index.html''), st)"
| "serve eng st GET_health = (case health st of (r, st') \<Rightarrow> (respond Health r, st'))"
| "serve eng st (POST_historical_candles request) =
     (case get_historical_candles st request of (r, st') \<Rightarrow> (respond Candles r, st'))"
| "serve eng st (POST_predict request) =
     (case predict_stock eng st request of (r, st') \<Rightarrow> (respond Predicted r, st'))"
| "serve eng st GET_stocks = (respond Stocks (Inr get_stock_list), st)"

text \<open>The state of the process after a sequence of requests, served one after the other.\<close>

fun serve_all :: "('df, 'p) engine \<Rightarrow> app_state \<Rightarrow> http_request list \<Rightarrow> app_state" where
  "serve_all eng st [] = st"
| "serve_all eng st (r # rs) = serve_all eng (snd (serve eng st r)) rs"

text \<open>
  A \<open>POST\<close> to one of the two data routes, with its body as it arrives: the body is
  validated first, and only a valid one reaches the handler.
\<close>

datatype data_route = Historical_candles | Predict

definition post_json ::
  "pydantic \<Rightarrow> ('df, 'p) engine \<Rightarrow> app_state \<Rightarrow> data_route \<Rightarrow> json \<Rightarrow>
     http_response \<times> app_state" where
  "post_json pyd eng st route body =
     (case validate_body pyd body of
        None \<Rightarrow> (Response 422 Validation_errors, st)
      | Some request \<Rightarrow>
          (case route of
             Historical_candles \<Rightarrow> serve eng st (POST_historical_candles request)
           | Predict \<Rightarrow> serve eng st (POST_predict request)))"

subsection \<open>Concrete clients, engines and requests\<close>

text \<open>
  A client whose fetch operation gives one fixed outcome, an engine whose last step gives one
  fixed outcome, a running process with no call made yet, and some requests, rows and
  exceptions to run the handlers on.
\<close>

definition stub_client :: "exn + candle list \<Rightarrow> UpstoxClient" where
  "stub_client result = \<lparr>client_get_historical_candles = (\<lambda>i s e v n. result)\<rparr>"

definition stub_engine :: "exn + pyfloat \<Rightarrow> (candle list, candle list) engine" where
  "stub_engine result =
     \<lparr>DataFrame = (\<lambda>rows columns. Inr rows), Prediction = Inr, feature_engineering = Inr,
      train_model = Inr, predict_next_day = (\<lambda>p. result)\<rparr>"

definition running :: "UpstoxClient option \<Rightarrow> app_state" where
  "running c = \<lparr>client = c, fetch_calls = []\<rparr>"

definition reliance_january :: StockPredictionRequest where
  "reliance_january =
     new_StockPredictionRequest ''INE002A01018'' ''2024-01-01'' ''2024-01-31'' None None"

definition two_candles :: "candle list" where
  "two_candles =
     [
      [PyStr ''2024-01-02T00:00:00+05:30'', PyFloat (Fin 2580), PyFloat (Fin 2612),
       PyFloat (Fin 2571), PyFloat (Fin 2605), PyInt 4120000, PyInt 0],
      [PyStr ''2024-01-01T00:00:00+05:30'', PyFloat (Fin 2590), PyFloat (Fin 2599),
       PyFloat (Fin 2566), PyFloat (Fin 2578), PyInt 3890000, PyInt 0]
     ]"

definition ragged_rows :: "candle list" where
  "ragged_rows =
     [
      [PyStr ''2024-01-02T00:00:00+05:30'', PyFloat (Fin 2580)],
      [],
      [PyStr ''2024-01-01T00:00:00+05:30'', PyFloat (Fin 2590), PyFloat (Fin 2599),
       PyFloat (Fin 2566), PyFloat (Fin 2578), PyInt 3890000, PyInt 0, PyNone]
     ]"

definition day_client :: UpstoxClient where
  "day_client =
     \<lparr>client_get_historical_candles =
        (\<lambda>i s e v n. if v = ''day'' \<and> n = 1 then Inr two_candles else Inr [])\<rparr>"

definition strict_pydantic :: pydantic where
  "strict_pydantic = \<lparr>lax_str = (\<lambda>j. None), lax_int = (\<lambda>j. None)\<rparr>"

definition short_body :: "(string \<times> json) list" where
  "short_body =
     [(''isin'', JStr ''INE002A01018''), (''start_date'', JStr ''2024-01-01''),
      (''end_date'', JStr ''2024-01-31'')]"

definition nan_row :: "candle list" where
  "nan_row = [ [PyStr ''2024-01-02T00:00:00+05:30'', PyFloat NaN, PyFloat PosInf, PyInt 7] ]"

definition timeout_error :: exn where
  "timeout_error =
     PyExn [''Timeout'', ''RequestException'', ''OSError'', ''Exception'', ''BaseException'']
       ''read timed out''"

definition missing_token :: exn where
  "missing_token =
     PyExn [''ValueError'', ''Exception'', ''BaseException''] ''UPSTOX_API_TOKEN is not set''"

definition import_failure :: exn where
  "import_failure =
     PyExn [''ModuleNotFoundError'', ''ImportError'', ''Exception'', ''BaseException'']
       ''No module named upstox_client''"

text \<open>
  The reference catalog as section 6 of the specification lists it, name before ISIN, to be
  compared with the literal of \<open>get_stock_list\<close>.
\<close>

definition spec_reference_catalog :: "(string \<times> string) list" where
  "spec_reference_catalog =
     [(''Reliance Industries'', ''INE002A01018''),
      (''Bharti Airtel'', ''INE397D01024''),
      (''TCS'', ''INE467B01029''),
      (''ICICI Bank'', ''INE090A01021''),
      (''State Bank of India'', ''INE062A01020''),
      (''Infosys'', ''INE009A01021''),
      (''Hindustan Unilever'', ''INE030A01027''),
      (''ITC'', ''INE154A01025''),
      (''Mahindra & Mahindra'', ''INE101A01026''),
      (''Kotak Mahindra Bank'', ''INE237A01028''),
      (''HCL Technologies'', ''INE860A01027''),
      (''Sun Pharma'', ''INE044A01036''),
      (''Axis Bank'', ''INE238A01034''),
      (''UltraTech Cement'', ''INE481G01011''),
      (''Titan Company'', ''INE280A01028''),
      (''NTPC'', ''INE733E01010''),
      (''Asian Paints'', ''INE021A01026''),
      (''Tata Steel'', ''INE081A01020''),
      (''Tata Consumer Products'', ''INE192A01025''),
      (''Wipro'', ''INE075A01022''),
      (''Adani Enterprises'', ''INE423A01024''),
      (''Adani Ports'', ''INE742F01042'')]"

section \<open>Properties of the service\<close>

subsection \<open>Auxiliary facts\<close>

lemma str_int_404: "str_int 404 = ''404''"
  by code_simp

lemma try_except_Inr: "try_except (Inr v) c h = Inr v"
  by (simp add: try_except_def)

lemma try_except_Inl: "try_except (Inl e) c h = (if isinstance e c then h e else Inl e)"
  by (simp add: try_except_def)

lemma serve_client: "client (snd (serve eng st r)) = client st"
  by (cases r) (auto simp: health_def get_historical_candles_def predict_stock_def
      call_get_historical_candles_def split: option.splits prod.splits)

lemma serve_all_client: "client (serve_all eng st rs) = client st"
  by (induction rs arbitrary: st) (simp_all add: serve_client)

lemma fetch_stub:
  "client_get_historical_candles (stub_client r) i s e v n = r"
  by (simp add: stub_client_def)

lemma running_simps: "client (running c) = c" "fetch_calls (running c) = []"
  by (simp_all add: running_def)

text \<open>
  C1. When the client is configured and its fetch returns no candle, \<open>POST /api/predict\<close>
  answers with status 400, not 404, and the detail is the not-found wording (preceded by the
  text of the 404 exception's status) inside the message \<open>Prediction error: ...\<close>;
  \<open>POST /api/historical-candles\<close> answers the same fetch with status 200 and the empty
  list as data.
\<close>

theorem predict_empty_fetch_is_400_historical_is_200:
  assumes "client st = Some c"
    and "client_get_historical_candles c (isin request) (start_date request) (end_date request)
           (interval request) (count request) = Inr []"
  shows "fst (serve eng st (POST_predict request)) =
           Response 400 (Detail ''Prediction error: 404: No data found for the given ISIN and date range'')
       \<and> sublist ''No data found for the given ISIN and date range''
           ''Prediction error: 404: No data found for the given ISIN and date range''
       \<and> fst (serve eng st (POST_historical_candles request)) =
           Response 200 (Candles \<lparr>HistoricalCandleResponse.isin = isin request, data = [],
             timestamp = end_date request\<rparr>)"
proof -
  have a: "fst (serve eng st (POST_predict request)) =
           Response 400 (Detail ''Prediction error: 404: No data found for the given ISIN and date range'')"
    using assms
    by (simp add: predict_stock_def call_get_historical_candles_def predict_body_def
        try_except_Inl respond_def str_int_404)
  have b: "sublist ''No data found for the given ISIN and date range''
           (''Prediction error: 404: '' @ ''No data found for the given ISIN and date range'' @ [])"
    unfolding sublist_def by blast
  have c: "fst (serve eng st (POST_historical_candles request)) =
           Response 200 (Candles \<lparr>HistoricalCandleResponse.isin = isin request, data = [],
             timestamp = end_date request\<rparr>)"
    using assms
    by (simp add: get_historical_candles_def call_get_historical_candles_def
        try_except_Inr respond_def)
  from a b c show ?thesis by simp
qed

theorem predict_empty_fetch_is_400_historical_is_200_witness:
  "fst (serve (stub_engine (Inr (Fin 2600))) (running (Some (stub_client (Inr []))))
          (POST_predict reliance_january)) =
     Response 400 (Detail ''Prediction error: 404: No data found for the given ISIN and date range'')
   \<and> fst (serve (stub_engine (Inr (Fin 2600))) (running (Some (stub_client (Inr []))))
          (POST_historical_candles reliance_january)) =
     Response 200 (Candles \<lparr>HistoricalCandleResponse.isin = ''INE002A01018'', data = [],
       timestamp = ''2024-01-31''\<rparr>)"
  using predict_empty_fetch_is_400_historical_is_200 [of "running (Some (stub_client (Inr [])))" "stub_client (Inr [])" reliance_january
      "stub_engine (Inr (Fin 2600))"]
  by (simp add: running_simps fetch_stub reliance_january_def new_StockPredictionRequest_def)







lemma json_cell_finite: "finite_cell v \<Longrightarrow> json_cell v = v"
  by (induction v rule: json_cell.induct) simp_all

lemma json_cells_finite:
  assumes "\<forall>row \<in> set rows. \<forall>v \<in> set row. finite_cell v"
  shows "map (map json_cell) rows = rows"
  using assms by (simp add: map_idI json_cell_finite)

text \<open>
  C3. When the client is configured and its fetch returns the rows \<open>rows\<close>, the handler of
  \<open>POST /api/historical-candles\<close> returns a response with exactly these rows as data (same
  rows, same order, same cells), the request's \<open>isin\<close> as \<open>isin\<close> and the request's
  \<open>end_date\<close> as \<open>timestamp\<close>. The route answers with status 200 and this response
  written as JSON: as many rows, in the same order, each with as many cells, and, when
  every cell is one JSON can hold, exactly these rows.
\<close>

theorem historical_candles_round_trip:
  assumes "client st = Some c"
    and "client_get_historical_candles c (isin request) (start_date request) (end_date request)
           (interval request) (count request) = Inr rows"
  shows "fst (get_historical_candles st request) =
           Inr \<lparr>HistoricalCandleResponse.isin = isin request, data = rows,
             timestamp = end_date request\<rparr>
       \<and> fst (serve eng st (POST_historical_candles request)) =
           Response 200 (Candles \<lparr>HistoricalCandleResponse.isin = isin request,
             data = map (map json_cell) rows, timestamp = end_date request\<rparr>)
       \<and> length (map (map json_cell) rows) = length rows
       \<and> map length (map (map json_cell) rows) = map length rows
       \<and> ((\<forall>row \<in> set rows. \<forall>v \<in> set row. finite_cell v) \<longrightarrow>
            fst (serve eng st (POST_historical_candles request)) =
              Response 200 (Candles \<lparr>HistoricalCandleResponse.isin = isin request,
                data = rows, timestamp = end_date request\<rparr>))"
proof -
  have h: "fst (get_historical_candles st request) =
           Inr \<lparr>HistoricalCandleResponse.isin = isin request, data = rows,
             timestamp = end_date request\<rparr>"
    using assms
    by (simp add: get_historical_candles_def call_get_historical_candles_def try_except_Inr)
  have r: "fst (serve eng st (POST_historical_candles request)) =
           Response 200 (Candles \<lparr>HistoricalCandleResponse.isin = isin request,
             data = map (map json_cell) rows, timestamp = end_date request\<rparr>)"
    using h by (cases "get_historical_candles st request") (simp add: respond_def)
  have f: "map (map json_cell) rows = rows"
    if "\<forall>row \<in> set rows. \<forall>v \<in> set row. finite_cell v"
    using that by (rule json_cells_finite)
  show ?thesis using h r f by simp
qed

theorem historical_candles_round_trip_witness:
  "fst (serve (stub_engine (Inr (Fin 2600))) (running (Some (stub_client (Inr two_candles))))
          (POST_historical_candles reliance_january)) =
     Response 200 (Candles \<lparr>HistoricalCandleResponse.isin = ''INE002A01018'', data = two_candles,
       timestamp = ''2024-01-31''\<rparr>)
   \<and> fst (get_historical_candles (running (Some (stub_client (Inr nan_row)))) reliance_january) =
     Inr \<lparr>HistoricalCandleResponse.isin = ''INE002A01018'', data = nan_row,
       timestamp = ''2024-01-31''\<rparr>
   \<and> fst (serve (stub_engine (Inr (Fin 2600))) (running (Some (stub_client (Inr nan_row))))
          (POST_historical_candles reliance_january)) =
     Response 200 (Candles \<lparr>HistoricalCandleResponse.isin = ''INE002A01018'',
       data = [ [PyStr ''2024-01-02T00:00:00+05:30'', PyNone, PyNone, PyInt 7] ],
       timestamp = ''2024-01-31''\<rparr>)"
proof -
  have c: "client (running (Some (stub_client (Inr rows)))) = Some (stub_client (Inr rows))" for rows
    by (simp add: running_simps)
  have f: "client_get_historical_candles (stub_client (Inr rows)) (isin reliance_january)
      (start_date reliance_january) (end_date reliance_january) (interval reliance_january)
      (count reliance_january) = Inr rows" for rows
    by (rule fetch_stub)
  have a: "\<forall>row \<in> set two_candles. \<forall>v \<in> set row. finite_cell v"
    by (simp add: two_candles_def)
  have q: "isin reliance_january = ''INE002A01018''" "end_date reliance_january = ''2024-01-31''"
    by (simp_all add: reliance_january_def new_StockPredictionRequest_def)
  have n: "map (map json_cell) nan_row = [ [PyStr ''2024-01-02T00:00:00+05:30'', PyNone, PyNone, PyInt 7] ]"
    by (simp add: nan_row_def)
  note t = historical_candles_round_trip [OF c f, of two_candles "stub_engine (Inr (Fin 2600))"]
  note u = historical_candles_round_trip [OF c f, of nan_row "stub_engine (Inr (Fin 2600))"]
  from t a have 1: "fst (serve (stub_engine (Inr (Fin 2600)))
          (running (Some (stub_client (Inr two_candles))))
          (POST_historical_candles reliance_january)) =
     Response 200 (Candles \<lparr>HistoricalCandleResponse.isin = isin reliance_january,
       data = two_candles, timestamp = end_date reliance_january\<rparr>)"
    by blast
  from u have 2: "fst (get_historical_candles (running (Some (stub_client (Inr nan_row))))
          reliance_january) =
     Inr \<lparr>HistoricalCandleResponse.isin = isin reliance_january, data = nan_row,
       timestamp = end_date reliance_january\<rparr>"
    by blast
  from u have 3: "fst (serve (stub_engine (Inr (Fin 2600)))
          (running (Some (stub_client (Inr nan_row))))
          (POST_historical_candles reliance_january)) =
     Response 200 (Candles \<lparr>HistoricalCandleResponse.isin = isin reliance_january,
       data = map (map json_cell) nan_row, timestamp = end_date reliance_january\<rparr>)"
    by blast
  show ?thesis
    unfolding 1 2 3 q n by simp
qed

lemma predict_body_Inr:
  assumes "predict_body eng request fetched = Inr r"
  shows "confidence r = (if py_gt (predicted_high r) 0 then ''high'' else ''moderate'')"
    and "\<exists>p. predict_next_day eng p = Inr (predicted_high r)"
  using assms
  by (auto simp: predict_body_def split: sum.splits if_splits)

lemma predict_stock_Inr:
  assumes "fst (predict_stock eng st request) = Inr r"
  shows "\<exists>fetched. predict_body eng request fetched = Inr r"
  using assms
  by (auto simp: predict_stock_def call_get_historical_candles_def try_except_def
      split: option.splits sum.splits if_splits)

lemma respond_Predicted:
  assumes "respond Predicted result = Response 200 (Predicted r)"
  shows "result = Inr r"
  using assms
  by (auto simp: respond_def split: sum.splits exn.splits if_splits pyfloat.splits)

lemma serve_predict_ok:
  assumes "fst (serve eng st (POST_predict request)) = Response 200 (Predicted r)"
  shows "\<exists>fetched. predict_body eng request fetched = Inr r"
proof -
  from assms have "respond Predicted (fst (predict_stock eng st request)) = Response 200 (Predicted r)"
    by (simp split: prod.splits)
  then have "fst (predict_stock eng st request) = Inr r"
    by (rule respond_Predicted)
  then show ?thesis by (rule predict_stock_Inr)
qed

text \<open>
  C4. In every successful answer of \<open>POST /api/predict\<close>, \<open>confidence\<close> is
  \<open>high\<close> when the predicted high is greater than 0 and \<open>moderate\<close> when it is not
  (0, negative, or not a number); no other label occurs. The predicted high of the answer
  is the value the engine's last step returned.
\<close>

theorem predict_confidence_label:
  assumes "fst (serve eng st (POST_predict request)) = Response 200 (Predicted r)"
  shows "(py_gt (predicted_high r) 0 \<longrightarrow> confidence r = ''high'')
       \<and> (\<not> py_gt (predicted_high r) 0 \<longrightarrow> confidence r = ''moderate'')
       \<and> (\<forall>x. predicted_high r = Fin x \<longrightarrow>
            (0 < x \<longrightarrow> confidence r = ''high'') \<and> (x \<le> 0 \<longrightarrow> confidence r = ''moderate''))
       \<and> (confidence r = ''high'' \<or> confidence r = ''moderate'')
       \<and> (\<exists>p. predict_next_day eng p = Inr (predicted_high r))"
proof -
  from assms obtain fetched where b: "predict_body eng request fetched = Inr r"
    using serve_predict_ok by blast
  have c: "confidence r = (if py_gt (predicted_high r) 0 then ''high'' else ''moderate'')"
    using b by (rule predict_body_Inr(1))
  have p: "\<exists>p. predict_next_day eng p = Inr (predicted_high r)"
    using b by (rule predict_body_Inr(2))
  have f: "\<forall>x. predicted_high r = Fin x \<longrightarrow>
            (0 < x \<longrightarrow> confidence r = ''high'') \<and> (x \<le> 0 \<longrightarrow> confidence r = ''moderate'')"
    using c by auto
  from c p f show ?thesis by auto
qed

lemma serve_predict_stub:
  "fst (serve (stub_engine (Inr (Fin x))) (running (Some (stub_client (Inr two_candles))))
          (POST_predict reliance_january)) =
     Response 200 (Predicted \<lparr>PredictionResponse.isin = ''INE002A01018'', predicted_high = Fin x,
       confidence = (if 0 < x then ''high'' else ''moderate'')\<rparr>)"
  by (simp add: predict_stock_def call_get_historical_candles_def predict_body_def running_simps
      fetch_stub stub_engine_def try_except_Inr respond_def two_candles_def reliance_january_def
      new_StockPredictionRequest_def)

theorem predict_confidence_label_witness:
  "fst (serve (stub_engine (Inr (Fin 2600))) (running (Some (stub_client (Inr two_candles))))
          (POST_predict reliance_january)) =
     Response 200 (Predicted \<lparr>PredictionResponse.isin = ''INE002A01018'',
       predicted_high = Fin 2600, confidence = ''high''\<rparr>)
   \<and> confidence \<lparr>PredictionResponse.isin = ''INE002A01018'',
       predicted_high = Fin 2600, confidence = ''high''\<rparr> = ''high''
   \<and> fst (serve (stub_engine (Inr (Fin (- 3)))) (running (Some (stub_client (Inr two_candles))))
          (POST_predict reliance_january)) =
     Response 200 (Predicted \<lparr>PredictionResponse.isin = ''INE002A01018'',
       predicted_high = Fin (- 3), confidence = ''moderate''\<rparr>)
   \<and> confidence \<lparr>PredictionResponse.isin = ''INE002A01018'',
       predicted_high = Fin (- 3), confidence = ''moderate''\<rparr> = ''moderate''"
proof -
  have h: "fst (serve (stub_engine (Inr (Fin 2600))) (running (Some (stub_client (Inr two_candles))))
          (POST_predict reliance_january)) =
     Response 200 (Predicted \<lparr>PredictionResponse.isin = ''INE002A01018'',
       predicted_high = Fin 2600, confidence = ''high''\<rparr>)"
    using serve_predict_stub [of 2600] by simp
  have m: "fst (serve (stub_engine (Inr (Fin (- 3)))) (running (Some (stub_client (Inr two_candles))))
          (POST_predict reliance_january)) =
     Response 200 (Predicted \<lparr>PredictionResponse.isin = ''INE002A01018'',
       predicted_high = Fin (- 3), confidence = ''moderate''\<rparr>)"
    using serve_predict_stub [of "- 3"] by simp
  show ?thesis using h m predict_confidence_label [OF h] predict_confidence_label [OF m] by simp
qed

text \<open>
  C5. \<open>GET /api/stocks\<close> returns, under the single key \<open>stocks\<close>, the 22 entries of
  the reference catalog as \<open>name\<close>/\<open>isin\<close> pairs, in the catalog's order, from
  Reliance Industries to Adani Ports; the answer is the same in every state of the process,
  so also after any sequence of requests.
\<close>

theorem stock_list_is_catalog:
  "get_stock_list =
     [(''stocks'', map (\<lambda>(name, isin). [(''name'', name), (''isin'', isin)]) spec_reference_catalog)]
   \<and> map fst get_stock_list = [''stocks'']
   \<and> length (snd (hd get_stock_list)) = 22
   \<and> hd (snd (hd get_stock_list)) = [(''name'', ''Reliance Industries''), (''isin'', ''INE002A01018'')]
   \<and> last (snd (hd get_stock_list)) = [(''name'', ''Adani Ports''), (''isin'', ''INE742F01042'')]
   \<and> serve eng st GET_stocks = (Response 200 (Stocks get_stock_list), st)
   \<and> fst (serve eng (serve_all eng st rs) GET_stocks) = fst (serve eng st GET_stocks)"
  by (simp add: get_stock_list_def spec_reference_catalog_def respond_def)

text \<open>
  C6. In a process that started, after any sequence of requests \<open>GET /health\<close>
  answers with status 200, \<open>status\<close> \<open>healthy\<close>, and \<open>api_configured\<close> true exactly
  when the construction of the client succeeded at startup; it leaves the process state as
  it was, so no call of the client is made.
\<close>

theorem health_reports_client:
  assumes "startup constructed = Inr st"
  shows "serve eng (serve_all eng st rs) GET_health =
           (Response 200 (Health \<lparr>status = ''healthy'', api_configured = (\<not> isl constructed)\<rparr>),
            serve_all eng st rs)"
proof -
  have "client st = None \<longleftrightarrow> isl constructed"
    using assms
    by (cases constructed)
      (auto simp: startup_def init_client_def try_except_def split: sum.splits if_splits)
  then show ?thesis
    by (simp add: health_def respond_def serve_all_client)
qed

lemma startup_stub: "startup (Inr c) = Inr (running (Some c))"
  by (simp add: startup_def init_client_def try_except_Inr running_def)

lemma startup_missing_token: "startup (Inl missing_token) = Inr (running None)"
  by (simp add: startup_def init_client_def try_except_Inl running_def missing_token_def)

theorem health_reports_client_witness:
  "fst (serve (stub_engine (Inr (Fin 2600)))
         (serve_all (stub_engine (Inr (Fin 2600))) (running (Some (stub_client (Inr two_candles))))
            [POST_predict reliance_january, GET_stocks])
         GET_health) =
     Response 200 (Health \<lparr>status = ''healthy'', api_configured = True\<rparr>)
   \<and> fst (serve (stub_engine (Inr (Fin 2600)))
         (serve_all (stub_engine (Inr (Fin 2600))) (running None)
            [POST_predict reliance_january, GET_stocks])
         GET_health) =
     Response 200 (Health \<lparr>status = ''healthy'', api_configured = False\<rparr>)"
  using health_reports_client [of "Inr (stub_client (Inr two_candles))" "running (Some (stub_client (Inr two_candles)))"
      "stub_engine (Inr (Fin 2600))" "[POST_predict reliance_january, GET_stocks]"]
    health_reports_client [of "Inl missing_token" "running None"
      "stub_engine (Inr (Fin 2600))" "[POST_predict reliance_january, GET_stocks]"]
  by (simp add: startup_stub startup_missing_token)

text \<open>
  C7. When the fetch of a configured client raises an exception \<open>e\<close> (an instance of
  \<open>Exception\<close>), \<open>POST /api/historical-candles\<close> answers with status 400 and detail
  \<open>Error fetching candles: \<close> followed by \<open>str(e)\<close>, and \<open>POST /api/predict\<close> with
  status 400 and detail \<open>Prediction error: \<close> followed by \<open>str(e)\<close>.
\<close>

theorem fetch_failure_is_400:
  assumes "client st = Some c"
    and "client_get_historical_candles c (isin request) (start_date request) (end_date request)
           (interval request) (count request) = Inl e"
    and "isinstance e ''Exception''"
  shows "fst (serve eng st (POST_historical_candles request)) =
           Response 400 (Detail (''Error fetching candles: '' @ str e))
       \<and> fst (serve eng st (POST_predict request)) =
           Response 400 (Detail (''Prediction error: '' @ str e))"
  using assms
  by (simp add: get_historical_candles_def predict_stock_def call_get_historical_candles_def
      predict_body_def try_except_Inl respond_def)

theorem fetch_failure_is_400_witness:
  "fst (serve (stub_engine (Inr (Fin 2600))) (running (Some (stub_client (Inl timeout_error))))
          (POST_historical_candles reliance_january)) =
     Response 400 (Detail ''Error fetching candles: read timed out'')
   \<and> fst (serve (stub_engine (Inr (Fin 2600))) (running (Some (stub_client (Inl timeout_error))))
          (POST_predict reliance_january)) =
     Response 400 (Detail ''Prediction error: read timed out'')"
proof -
  have i: "isinstance timeout_error ''Exception''"
    by (simp add: timeout_error_def)
  have t: "str timeout_error = ''read timed out''"
    by (simp add: timeout_error_def)
  show ?thesis
    using fetch_failure_is_400 [of "running (Some (stub_client (Inl timeout_error)))"
        "stub_client (Inl timeout_error)" reliance_january timeout_error
        "stub_engine (Inr (Fin 2600))", OF _ _ i]
    by (simp add: running_simps fetch_stub t)
qed

lemma defaults_request:
  "new_StockPredictionRequest i s e None None =
     new_StockPredictionRequest i s e (Some ''day'') (Some 1)"
  by (simp add: new_StockPredictionRequest_def)

lemma defaults_fields:
  "isin (new_StockPredictionRequest i s e None None) = i"
  "start_date (new_StockPredictionRequest i s e None None) = s"
  "end_date (new_StockPredictionRequest i s e None None) = e"
  "interval (new_StockPredictionRequest i s e None None) = ''day''"
  "count (new_StockPredictionRequest i s e None None) = 1"
  by (simp_all add: new_StockPredictionRequest_def)

lemma absent_member:
  assumes "name \<notin> fst ` set members"
  shows "map_of (rev members) name = None"
  using assms by (simp add: map_of_eq_None_iff)

lemma validate_body_defaults:
  assumes "''interval'' \<notin> fst ` set members" and "''count'' \<notin> fst ` set members"
  shows "validate_body pyd (JObj members) =
         validate_body pyd (JObj (members @ [(''interval'', JStr ''day''), (''count'', JInt 1)]))"
proof -
  have a: "map_of (rev members) ''interval'' = None" "map_of (rev members) ''count'' = None"
    using assms by (simp_all add: absent_member)
  show ?thesis
    by (simp add: validate_body_def field_of_def a new_StockPredictionRequest_def
        split: field.splits option.splits)
qed

text \<open>
  C8. A request built without \<open>interval\<close> and \<open>count\<close> is the request built with
  \<open>interval\<close> \<open>day\<close> and \<open>count\<close> 1: both data routes answer the two alike and leave
  the same state. With a configured client, the fetch is called once more, with \<open>day\<close>
  and 1, and the handlers' results are what the handlers make of the outcome of the
  client's fetch at \<open>day\<close> and 1. A JSON object without the members \<open>interval\<close> and
  \<open>count\<close> validates to the same request, and is answered in the same way, as the
  object with \<open>interval\<close> \<open>day\<close> and \<open>count\<close> 1 added.
\<close>

theorem default_interval_and_count:
  "new_StockPredictionRequest i s e None None =
     new_StockPredictionRequest i s e (Some ''day'') (Some 1)
   \<and> serve eng st (POST_historical_candles (new_StockPredictionRequest i s e None None)) =
     serve eng st (POST_historical_candles (new_StockPredictionRequest i s e (Some ''day'') (Some 1)))
   \<and> serve eng st (POST_predict (new_StockPredictionRequest i s e None None)) =
     serve eng st (POST_predict (new_StockPredictionRequest i s e (Some ''day'') (Some 1)))
   \<and> (client st \<noteq> None \<longrightarrow>
        fetch_calls (snd (serve eng st
          (POST_historical_candles (new_StockPredictionRequest i s e None None)))) =
          fetch_calls st @ [(i, s, e, ''day'', 1)]
      \<and> fetch_calls (snd (serve eng st
          (POST_predict (new_StockPredictionRequest i s e None None)))) =
          fetch_calls st @ [(i, s, e, ''day'', 1)])
   \<and> (client st = Some c \<longrightarrow>
        fst (get_historical_candles st (new_StockPredictionRequest i s e None None)) =
          try_except
            (case client_get_historical_candles c i s e ''day'' 1 of
               Inl x \<Rightarrow> Inl x
             | Inr candles \<Rightarrow>
                 Inr \<lparr>HistoricalCandleResponse.isin = i, data = candles, timestamp = e\<rparr>)
            ''Exception''
            (\<lambda>x. Inl (HTTPException 400 (''Error fetching candles: '' @ str x)))
      \<and> fst (predict_stock eng st (new_StockPredictionRequest i s e None None)) =
          try_except
            (predict_body eng (new_StockPredictionRequest i s e (Some ''day'') (Some 1))
               (client_get_historical_candles c i s e ''day'' 1))
            ''Exception''
            (\<lambda>x. Inl (HTTPException 400 (''Prediction error: '' @ str x))))
   \<and> (''interval'' \<notin> fst ` set members \<and> ''count'' \<notin> fst ` set members \<longrightarrow>
        validate_body pyd (JObj members) =
          validate_body pyd (JObj (members @ [(''interval'', JStr ''day''), (''count'', JInt 1)]))
      \<and> post_json pyd eng st route (JObj members) =
          post_json pyd eng st route
            (JObj (members @ [(''interval'', JStr ''day''), (''count'', JInt 1)])))"
proof -
  note d = defaults_request [of i s e]
  have 4: "fetch_calls (snd (serve eng st
          (POST_historical_candles (new_StockPredictionRequest i s e None None)))) =
          fetch_calls st @ [(i, s, e, ''day'', 1)]
      \<and> fetch_calls (snd (serve eng st
          (POST_predict (new_StockPredictionRequest i s e None None)))) =
          fetch_calls st @ [(i, s, e, ''day'', 1)]"
    if "client st \<noteq> None"
    using that
    by (auto simp: get_historical_candles_def predict_stock_def call_get_historical_candles_def
        defaults_fields)
  have 5: "fst (get_historical_candles st (new_StockPredictionRequest i s e None None)) =
          try_except
            (case client_get_historical_candles c i s e ''day'' 1 of
               Inl x \<Rightarrow> Inl x
             | Inr candles \<Rightarrow>
                 Inr \<lparr>HistoricalCandleResponse.isin = i, data = candles, timestamp = e\<rparr>)
            ''Exception''
            (\<lambda>x. Inl (HTTPException 400 (''Error fetching candles: '' @ str x)))"
    if "client st = Some c"
    using that
    by (cases "client_get_historical_candles c i s e ''day'' 1")
      (simp_all add: get_historical_candles_def call_get_historical_candles_def defaults_fields)
  have 6: "fst (predict_stock eng st (new_StockPredictionRequest i s e None None)) =
          try_except
            (predict_body eng (new_StockPredictionRequest i s e (Some ''day'') (Some 1))
               (client_get_historical_candles c i s e ''day'' 1))
            ''Exception''
            (\<lambda>x. Inl (HTTPException 400 (''Prediction error: '' @ str x)))"
    if "client st = Some c"
    using that
    by (simp add: predict_stock_def call_get_historical_candles_def defaults_fields
        flip: d)
  have 7: "validate_body pyd (JObj members) =
          validate_body pyd (JObj (members @ [(''interval'', JStr ''day''), (''count'', JInt 1)]))"
    if "''interval'' \<notin> fst ` set members" "''count'' \<notin> fst ` set members"
    using that by (rule validate_body_defaults)
  have 8: "post_json pyd eng st route (JObj members) =
          post_json pyd eng st route
            (JObj (members @ [(''interval'', JStr ''day''), (''count'', JInt 1)]))"
    if "''interval'' \<notin> fst ` set members" "''count'' \<notin> fst ` set members"
    using 7 [OF that] by (simp add: post_json_def)
  from d 4 5 6 7 8 show ?thesis by (simp del: serve.simps)
qed

lemma day_client_fetch:
  "client_get_historical_candles day_client i s e v n =
     (if v = ''day'' \<and> n = 1 then Inr two_candles else Inr [])"
  by (simp add: day_client_def)

theorem default_interval_and_count_witness:
  "fst (get_historical_candles (running (Some day_client))
      (new_StockPredictionRequest ''INE002A01018'' ''2024-01-01'' ''2024-01-31'' None None)) =
     Inr \<lparr>HistoricalCandleResponse.isin = ''INE002A01018'', data = two_candles,
       timestamp = ''2024-01-31''\<rparr>
   \<and> fetch_calls (snd (serve (stub_engine (Inr (Fin 2600))) (running (Some day_client))
      (POST_predict
         (new_StockPredictionRequest ''INE002A01018'' ''2024-01-01'' ''2024-01-31'' None None)))) =
     [(''INE002A01018'', ''2024-01-01'', ''2024-01-31'', ''day'', 1)]
   \<and> post_json strict_pydantic (stub_engine (Inr (Fin 2600))) (running (Some day_client))
        Historical_candles (JObj short_body) =
     post_json strict_pydantic (stub_engine (Inr (Fin 2600))) (running (Some day_client))
        Historical_candles
        (JObj (short_body @ [(''interval'', JStr ''day''), (''count'', JInt 1)]))"
proof -
  have h: "client (running (Some day_client)) \<noteq> None"
    and c: "client (running (Some day_client)) = Some day_client"
    by (simp_all add: running_simps)
  have m: "''interval'' \<notin> fst ` set short_body \<and> ''count'' \<notin> fst ` set short_body"
    by (simp add: short_body_def)
  note t = default_interval_and_count [of "''INE002A01018''" "''2024-01-01''" "''2024-01-31''"
      "stub_engine (Inr (Fin 2600))" "running (Some day_client)" day_client short_body
      strict_pydantic Historical_candles]
  from t h have 1: "fetch_calls (snd (serve (stub_engine (Inr (Fin 2600)))
      (running (Some day_client))
      (POST_predict
         (new_StockPredictionRequest ''INE002A01018'' ''2024-01-01'' ''2024-01-31'' None None)))) =
     fetch_calls (running (Some day_client)) @
       [(''INE002A01018'', ''2024-01-01'', ''2024-01-31'', ''day'', 1)]"
    by blast
  from t c have 2: "fst (get_historical_candles (running (Some day_client))
      (new_StockPredictionRequest ''INE002A01018'' ''2024-01-01'' ''2024-01-31'' None None)) =
     try_except
       (case client_get_historical_candles day_client ''INE002A01018'' ''2024-01-01''
               ''2024-01-31'' ''day'' 1 of
          Inl x \<Rightarrow> Inl x
        | Inr candles \<Rightarrow>
            Inr \<lparr>HistoricalCandleResponse.isin = ''INE002A01018'', data = candles,
              timestamp = ''2024-01-31''\<rparr>)
       ''Exception''
       (\<lambda>x. Inl (HTTPException 400 (''Error fetching candles: '' @ str x)))"
    by blast
  from t m have 3: "post_json strict_pydantic (stub_engine (Inr (Fin 2600)))
        (running (Some day_client)) Historical_candles (JObj short_body) =
     post_json strict_pydantic (stub_engine (Inr (Fin 2600))) (running (Some day_client))
        Historical_candles
        (JObj (short_body @ [(''interval'', JStr ''day''), (''count'', JInt 1)]))"
    by blast
  show ?thesis
    unfolding 1 2
    using 3 by (simp add: running_simps day_client_fetch try_except_Inr)
qed

text \<open>
  C9. At process start, an exception of the client's constructor that is a
  \<open>ValueError\<close> leaves the handle \<open>None\<close> and the process starts; an exception that is no
  \<open>ValueError\<close> leaves the module, and the process does not start. A constructed client
  becomes the handle.
\<close>

theorem startup_catches_ValueError_only:
  "(isinstance e ''ValueError'' \<longrightarrow>
      init_client (Inl e) = Inr None
    \<and> startup (Inl e) = Inr \<lparr>client = None, fetch_calls = []\<rparr>)
   \<and> (\<not> isinstance e ''ValueError'' \<longrightarrow>
      init_client (Inl e) = Inl e \<and> startup (Inl e) = Inl e)
   \<and> init_client (Inr c) = Inr (Some c)
   \<and> startup (Inr c) = Inr \<lparr>client = Some c, fetch_calls = []\<rparr>"
  by (simp add: startup_def init_client_def try_except_Inl try_except_Inr)

theorem startup_catches_ValueError_only_witness:
  "startup (Inl missing_token) = Inr \<lparr>client = None, fetch_calls = []\<rparr>
   \<and> startup (Inl import_failure) = Inl import_failure
   \<and> isinstance import_failure ''Exception''"
proof -
  have v: "isinstance missing_token ''ValueError''"
    by (simp add: missing_token_def)
  have n: "\<not> isinstance import_failure ''ValueError''"
    by (simp add: import_failure_def)
  have x: "isinstance import_failure ''Exception''"
    by (simp add: import_failure_def)
  show ?thesis
    using v n x startup_catches_ValueError_only [of missing_token "stub_client (Inr [])"]
      startup_catches_ValueError_only [of import_failure "stub_client (Inr [])"]
    by simp
qed

text \<open>
  C10. The handler of \<open>POST /api/historical-candles\<close> returns whatever rows the
  client's fetch returned as \<open>data\<close>, with no condition on the number of cells of a row.
\<close>

theorem historical_candles_rows_unchecked:
  assumes "client st = Some c"
    and "client_get_historical_candles c (isin request) (start_date request) (end_date request)
           (interval request) (count request) = Inr rows"
  shows "\<exists>r. fst (get_historical_candles st request) = Inr r \<and> data r = rows"
  using assms
  by (simp add: get_historical_candles_def call_get_historical_candles_def try_except_Inr)

theorem historical_candles_rows_unchecked_witness:
  "(\<exists>r. fst (get_historical_candles (running (Some (stub_client (Inr ragged_rows))))
            reliance_january) = Inr r
       \<and> data r = ragged_rows)
   \<and> map length ragged_rows = [2, 0, 8]"
  using historical_candles_rows_unchecked [of "running (Some (stub_client (Inr ragged_rows)))"
      "stub_client (Inr ragged_rows)" reliance_january ragged_rows]
  by (simp add: running_simps fetch_stub ragged_rows_def)

end
